theory Spec2Isabelle
  imports Main "HOL-Library.Word"
begin

section \<open>Fraucheky: the USB Mass Storage Class responder of fraucheky.c\<close>

text \<open>
  The file answers three callbacks of the USB link layer: the endpoint set-up of the
  interface, the class-specific control requests, and GET_DESCRIPTOR. It holds constant
  tables only; everything it does besides returning a status is a call into the link layer.
\<close>

type_synonym uint8_t = "8 word"
type_synonym uint16_t = "16 word"

subsection \<open>What the included files declare\<close>

text \<open>
  \<^verbatim>\<open>usb_lld.h\<close>, \<^verbatim>\<open>fraucheky-vid-pid-ver.c.inc\<close> and
  \<^verbatim>\<open>fraucheky-usb-strings.c.inc\<close> are included by fraucheky.c. Every name
  the file takes from them is a field of the record below, so the functions are
  parameterised by the declarations and no value is fixed here:
  \<^item> the descriptor type tags that are stored in the uint8_t tables;
  \<^item> the recipient and descriptor-type enumerators that are compared with the uint8_t
    arguments of \<^verbatim>\<open>fraucheky_get_descriptor\<close> (typed as bytes, like the
    arguments they are compared with);
  \<^item> the macro \<^verbatim>\<open>USB_SETUP_GET\<close>, a test on the request byte;
  \<^item> the endpoint number and endpoint type handed to the link layer;
  \<^item> the bytes that \<^verbatim>\<open>fraucheky-vid-pid-ver.c.inc\<close> splices into the device
    descriptor, and the two arrays \<^verbatim>\<open>string_vendor\<close> and \<^verbatim>\<open>string_product\<close>.
\<close>

record usb_lld =
  USB_DEVICE_DESCRIPTOR_TYPE :: uint8_t
  USB_CONFIGURATION_DESCRIPTOR_TYPE :: uint8_t
  USB_STRING_DESCRIPTOR_TYPE :: uint8_t
  USB_INTERFACE_DESCRIPTOR_TYPE :: uint8_t
  USB_ENDPOINT_DESCRIPTOR_TYPE :: uint8_t
  DEVICE_RECIPIENT :: uint8_t
  DEVICE_DESCRIPTOR :: uint8_t
  CONFIG_DESCRIPTOR :: uint8_t
  STRING_DESCRIPTOR :: uint8_t
  USB_SETUP_GET :: "uint8_t \<Rightarrow> bool"
  ENDP6 :: int
  EP_BULK :: int
  vid_pid_ver :: "uint8_t list"
  string_vendor :: "uint8_t list"
  string_product :: "uint8_t list"

text \<open>
  Modelled from the spec: the status enumeration of \<^verbatim>\<open>usb_lld.h\<close>, which is not
  part of the source at hand. The spec has a two-valued outcome, Success or Unsupported;
  the code returns \<^verbatim>\<open>USB_SUCCESS\<close> or \<^verbatim>\<open>USB_UNSUPPORT\<close>.
\<close>

datatype usb_status = USB_UNSUPPORT | USB_SUCCESS

subsection \<open>The link layer\<close>

text \<open>
  Modelled from the spec: the four primitives of the link-layer driver that fraucheky.c
  calls (configure-endpoint, stall-transmit, stall-receive, set-data-to-send). Their
  bodies are not part of the source at hand; what the driver does with a call is opaque,
  so its state is the sequence of the calls it has received, each with its arguments as
  the code passes them. A buffer argument is the content of the constant array that the
  pointer designates.
\<close>

datatype lld_call =
  Usb_lld_setup_endpoint int int int int int int
| Usb_lld_stall_tx int
| Usb_lld_stall_rx int
| Usb_lld_set_data_to_send "uint8_t list" nat

type_synonym lld = "lld_call list"

definition usb_lld_setup_endpoint :: "int \<Rightarrow> int \<Rightarrow> int \<Rightarrow> int \<Rightarrow> int \<Rightarrow> int \<Rightarrow> lld \<Rightarrow> lld" where
  "usb_lld_setup_endpoint ep_num ep_type ep_kind ep_rx_addr ep_tx_addr ep_rx_size s =
     s @ [Usb_lld_setup_endpoint ep_num ep_type ep_kind ep_rx_addr ep_tx_addr ep_rx_size]"

definition usb_lld_stall_tx :: "int \<Rightarrow> lld \<Rightarrow> lld" where
  "usb_lld_stall_tx ep_num s = s @ [Usb_lld_stall_tx ep_num]"

definition usb_lld_stall_rx :: "int \<Rightarrow> lld \<Rightarrow> lld" where
  "usb_lld_stall_rx ep_num s = s @ [Usb_lld_stall_rx ep_num]"

definition usb_lld_set_data_to_send :: "uint8_t list \<Rightarrow> nat \<Rightarrow> lld \<Rightarrow> lld" where
  "usb_lld_set_data_to_send p len s = s @ [Usb_lld_set_data_to_send p len]"

subsection \<open>Constants and tables\<close>

definition ENDP6_TXADDR :: int where
  "ENDP6_TXADDR = 0x180"

definition ENDP6_RXADDR :: int where
  "ENDP6_RXADDR = 0x1c0"

definition USB_INITIAL_FEATURE :: uint8_t where
  "USB_INITIAL_FEATURE = 0x80"

definition MSC_GET_MAX_LUN_COMMAND :: uint8_t where
  "MSC_GET_MAX_LUN_COMMAND = 0xFE"

definition MSC_MASS_STORAGE_RESET_COMMAND :: uint8_t where
  "MSC_MASS_STORAGE_RESET_COMMAND = 0xFF"

text \<open>The device descriptor; the included fragment sits between byte 7 and the string indices.\<close>

definition device_desc :: "usb_lld \<Rightarrow> uint8_t list" where
  "device_desc h =
     [18,
      USB_DEVICE_DESCRIPTOR_TYPE h,
      0x10, 0x01,
      0x00,
      0x00,
      0x00,
      0x40]
     @ vid_pid_ver h @
     [1,
      2,
      3,
      1]"

definition MSC_TOTAL_LENGTH :: nat where
  "MSC_TOTAL_LENGTH = 9 + 7 + 7"

definition config_desc :: "usb_lld \<Rightarrow> uint8_t list" where
  "config_desc h =
     [9,
      USB_CONFIGURATION_DESCRIPTOR_TYPE h,
      (9 + 9 + 7 + 7), 0x00,
      1,
      0x01,
      0x00,
      USB_INITIAL_FEATURE,
      50,
      9,
      USB_INTERFACE_DESCRIPTOR_TYPE h,
      0,
      0x00,
      0x02,
      0x08,
      0x06,
      0x50,
      0x00,
      7,
      USB_ENDPOINT_DESCRIPTOR_TYPE h,
      0x86,
      0x02,
      0x40, 0x00,
      0x00,
      7,
      USB_ENDPOINT_DESCRIPTOR_TYPE h,
      0x06,
      0x02,
      0x40, 0x00,
      0x00]"

definition string_lang_id :: "usb_lld \<Rightarrow> uint8_t list" where
  "string_lang_id h =
     [4,
      USB_STRING_DESCRIPTOR_TYPE h,
      0x09, 0x04]"

text \<open>The serial number is "FSIJ-0.0", one 16-bit unit for each character, low byte first.\<close>

definition string_serial :: "usb_lld \<Rightarrow> uint8_t list" where
  "string_serial h =
     [8 * 2 + 2,
      USB_STRING_DESCRIPTOR_TYPE h,
      0x46, 0, 0x53, 0, 0x49, 0, 0x4A, 0, 0x2D, 0, 0x30, 0, 0x2E, 0, 0x30, 0]"

text \<open>
  \<^verbatim>\<open>struct desc { const uint8_t *desc; uint16_t size; }\<close>: the second field is
  called \<open>size_desc\<close> here, and it is a 16-bit value, so \<^verbatim>\<open>sizeof\<close> of an array
  is stored modulo \<open>2 ^ 16\<close>.
\<close>

record desc =
  desc :: "uint8_t list"
  size_desc :: uint16_t

definition string_descriptors :: "usb_lld \<Rightarrow> desc list" where
  "string_descriptors h =
     [\<lparr>desc = string_lang_id h, size_desc = of_nat (length (string_lang_id h))\<rparr>,
      \<lparr>desc = string_vendor h, size_desc = of_nat (length (string_vendor h))\<rparr>,
      \<lparr>desc = string_product h, size_desc = of_nat (length (string_product h))\<rparr>,
      \<lparr>desc = string_serial h, size_desc = of_nat (length (string_serial h))\<rparr>]"

definition lun_table :: "uint8_t list" where
  "lun_table = [0, 0, 0, 0]"

subsection \<open>The three entry points\<close>

text \<open>\<^verbatim>\<open>stop\<close> is a C int used as a truth value: \<^verbatim>\<open>!stop\<close> holds for 0 only.\<close>

definition fraucheky_setup_endpoints_for_interface :: "usb_lld \<Rightarrow> int \<Rightarrow> lld \<Rightarrow> lld" where
  "fraucheky_setup_endpoints_for_interface h stop s =
     (if stop = 0
      then usb_lld_setup_endpoint (ENDP6 h) (EP_BULK h) 0 ENDP6_RXADDR ENDP6_TXADDR 64 s
      else usb_lld_stall_rx (ENDP6 h) (usb_lld_stall_tx (ENDP6 h) s))"

definition fraucheky_setup ::
  "usb_lld \<Rightarrow> uint8_t \<Rightarrow> uint8_t \<Rightarrow> uint16_t \<Rightarrow> uint16_t \<Rightarrow> lld \<Rightarrow> usb_status \<times> lld" where
  "fraucheky_setup h req req_no val len s =
     (if USB_SETUP_GET h req
      then (if req_no = MSC_GET_MAX_LUN_COMMAND
            then (USB_SUCCESS, usb_lld_set_data_to_send lun_table (length lun_table) s)
            else (USB_UNSUPPORT, s))
      else (if req_no = MSC_MASS_STORAGE_RESET_COMMAND
            then (USB_SUCCESS, s)
            else (USB_UNSUPPORT, s)))"

definition fraucheky_get_descriptor ::
  "usb_lld \<Rightarrow> uint8_t \<Rightarrow> uint8_t \<Rightarrow> uint8_t \<Rightarrow> uint16_t \<Rightarrow> lld \<Rightarrow> usb_status \<times> lld" where
  "fraucheky_get_descriptor h rcp desc_type desc_index index s =
     (if rcp = DEVICE_RECIPIENT h \<and> index = 0
      then (if desc_type = DEVICE_DESCRIPTOR h
            then (USB_SUCCESS,
                  usb_lld_set_data_to_send (device_desc h) (length (device_desc h)) s)
            else if desc_type = CONFIG_DESCRIPTOR h
            then (USB_SUCCESS,
                  usb_lld_set_data_to_send (config_desc h) (length (config_desc h)) s)
            else if desc_type = STRING_DESCRIPTOR h
            then (if unat desc_index < length (string_descriptors h)
                  then (USB_SUCCESS,
                        usb_lld_set_data_to_send
                          (desc (string_descriptors h ! unat desc_index))
                          (unat (size_desc (string_descriptors h ! unat desc_index))) s)
                  else (USB_UNSUPPORT, s))
            else (USB_UNSUPPORT, s))
      else (USB_UNSUPPORT, s))"

subsection \<open>A sample set of declarations\<close>

text \<open>
  One assignment of the included declarations, used to run the functions on concrete
  input: the type tags and enumerators as USB numbers them, the direction test on bit 7 of
  the request byte, endpoint 6, and short vendor and product strings ("F" and "G").
\<close>

definition sample_lld :: usb_lld where
  "sample_lld =
     \<lparr>USB_DEVICE_DESCRIPTOR_TYPE = 1,
      USB_CONFIGURATION_DESCRIPTOR_TYPE = 2,
      USB_STRING_DESCRIPTOR_TYPE = 3,
      USB_INTERFACE_DESCRIPTOR_TYPE = 4,
      USB_ENDPOINT_DESCRIPTOR_TYPE = 5,
      DEVICE_RECIPIENT = 0,
      DEVICE_DESCRIPTOR = 1,
      CONFIG_DESCRIPTOR = 2,
      STRING_DESCRIPTOR = 3,
      USB_SETUP_GET = (\<lambda>req. 128 \<le> unat req),
      ENDP6 = 6,
      EP_BULK = 0,
      vid_pid_ver = [0x4b, 0x23, 0x04, 0x00, 0x00, 0x02],
      string_vendor = [4, 3, 0x46, 0],
      string_product = [4, 3, 0x47, 0]\<rparr>"

section \<open>Properties\<close>

lemma length_string_descriptors: "length (string_descriptors h) = 4"
  by (simp add: string_descriptors_def)

lemma length_config_desc: "length (config_desc h) = 32"
  by (simp add: config_desc_def)

lemma length_lun_table: "length lun_table = 4"
  by (simp add: lun_table_def)

text \<open>
  C2: whatever the value and length arguments are, a request in the GET direction with
  request code 0xFE is answered with Success, and the outbound-data primitive receives a
  buffer of exactly four bytes, each of them zero.
\<close>

theorem setup_get_max_lun:
  assumes "USB_SETUP_GET h req"
  shows "fraucheky_setup h req 0xFE val len s =
           (USB_SUCCESS, s @ [Usb_lld_set_data_to_send [0, 0, 0, 0] 4])"
  using assms
  by (simp add: fraucheky_setup_def MSC_GET_MAX_LUN_COMMAND_def
      usb_lld_set_data_to_send_def lun_table_def)

theorem setup_get_max_lun_witness:
  "USB_SETUP_GET sample_lld 0xA1 \<and>
   fraucheky_setup sample_lld 0xA1 0xFE 7 9 [] =
     (USB_SUCCESS, [Usb_lld_set_data_to_send [0, 0, 0, 0] 4])"
proof -
  have g: "USB_SETUP_GET sample_lld 0xA1"
    by (simp add: sample_lld_def)
  from setup_get_max_lun [OF g, of 7 9 "[]"] g show ?thesis
    by simp
qed

text \<open>
  C1: the string descriptor table has four entries. With the device as recipient and
  language index 0, a STRING request whose descriptor index is below four is answered with
  Success, and the link layer receives the byte sequence and the length recorded in the
  table entry of that index; an index of four or more is answered with Unsupported. The
  enumerator STRING_DESCRIPTOR is assumed to differ from the two that are tested before it.
\<close>

theorem get_descriptor_string:
  assumes "STRING_DESCRIPTOR h \<noteq> DEVICE_DESCRIPTOR h"
    and "STRING_DESCRIPTOR h \<noteq> CONFIG_DESCRIPTOR h"
  shows "length (string_descriptors h) = 4 \<and>
    (unat desc_index < 4 \<longrightarrow>
       fraucheky_get_descriptor h (DEVICE_RECIPIENT h) (STRING_DESCRIPTOR h) desc_index 0 s =
         (USB_SUCCESS,
          s @ [Usb_lld_set_data_to_send
                 (desc (string_descriptors h ! unat desc_index))
                 (unat (size_desc (string_descriptors h ! unat desc_index)))])) \<and>
    (4 \<le> unat desc_index \<longrightarrow>
       fraucheky_get_descriptor h (DEVICE_RECIPIENT h) (STRING_DESCRIPTOR h) desc_index 0 s =
         (USB_UNSUPPORT, s))"
  using assms
  by (simp add: fraucheky_get_descriptor_def length_string_descriptors
      usb_lld_set_data_to_send_def)

theorem get_descriptor_string_witness:
  "STRING_DESCRIPTOR sample_lld \<noteq> DEVICE_DESCRIPTOR sample_lld \<and>
   STRING_DESCRIPTOR sample_lld \<noteq> CONFIG_DESCRIPTOR sample_lld \<and>
   unat (3 :: uint8_t) < 4 \<and>
   fraucheky_get_descriptor sample_lld 0 3 3 0 [] =
     (USB_SUCCESS,
      [Usb_lld_set_data_to_send
         [18, 3, 0x46, 0, 0x53, 0, 0x49, 0, 0x4A, 0, 0x2D, 0, 0x30, 0, 0x2E, 0, 0x30, 0] 18]) \<and>
   4 \<le> unat (4 :: uint8_t) \<and>
   fraucheky_get_descriptor sample_lld 0 3 4 0 [] = (USB_UNSUPPORT, [])"
proof -
  have a: "STRING_DESCRIPTOR sample_lld \<noteq> DEVICE_DESCRIPTOR sample_lld"
    by (simp add: sample_lld_def)
  have b: "STRING_DESCRIPTOR sample_lld \<noteq> CONFIG_DESCRIPTOR sample_lld"
    by (simp add: sample_lld_def)
  have c: "unat (3 :: uint8_t) < 4" and d: "4 \<le> unat (4 :: uint8_t)"
    by simp_all
  have e: "string_descriptors sample_lld ! unat (3 :: uint8_t) =
      \<lparr>desc = [18, 3, 0x46, 0, 0x53, 0, 0x49, 0, 0x4A, 0, 0x2D, 0, 0x30, 0, 0x2E, 0, 0x30, 0],
       size_desc = 18\<rparr>"
    by (simp add: string_descriptors_def string_serial_def sample_lld_def)
  have f: "DEVICE_RECIPIENT sample_lld = 0" "STRING_DESCRIPTOR sample_lld = 3"
    by (simp_all add: sample_lld_def)
  from get_descriptor_string [OF a b, of 3 "[]"] c e f
  have g: "fraucheky_get_descriptor sample_lld 0 3 3 0 [] =
     (USB_SUCCESS,
      [Usb_lld_set_data_to_send
         [18, 3, 0x46, 0, 0x53, 0, 0x49, 0, 0x4A, 0, 0x2D, 0, 0x30, 0, 0x2E, 0, 0x30, 0] 18])"
    by simp
  from get_descriptor_string [OF a b, of 4 "[]"] d f
  have i: "fraucheky_get_descriptor sample_lld 0 3 4 0 [] = (USB_UNSUPPORT, [])"
    by simp
  from a b c d g i show ?thesis
    by simp
qed

text \<open>
  C3: with the device as recipient and language index 0, a CONFIG request is answered with
  Success and the configuration descriptor, whatever the descriptor index. The buffer is 32
  bytes long, and its bytes 2 and 3, read as a little-endian 16-bit number, give that same
  length. The constant MSC_TOTAL_LENGTH is 23 and takes no part in it. The enumerator
  CONFIG_DESCRIPTOR is assumed to differ from DEVICE_DESCRIPTOR, which is tested first.
\<close>

theorem get_descriptor_config:
  assumes "CONFIG_DESCRIPTOR h \<noteq> DEVICE_DESCRIPTOR h"
  shows "fraucheky_get_descriptor h (DEVICE_RECIPIENT h) (CONFIG_DESCRIPTOR h) desc_index 0 s =
      (USB_SUCCESS,
       s @ [Usb_lld_set_data_to_send (config_desc h) (length (config_desc h))]) \<and>
    length (config_desc h) = 32 \<and>
    unat (config_desc h ! 2) + 256 * unat (config_desc h ! 3) = length (config_desc h) \<and>
    MSC_TOTAL_LENGTH = 23 \<and>
    MSC_TOTAL_LENGTH \<noteq> length (config_desc h)"
proof -
  have "unat (config_desc h ! 2) + 256 * unat (config_desc h ! 3) = 32"
    by (simp add: config_desc_def)
  moreover have "MSC_TOTAL_LENGTH = 23"
    by (simp add: MSC_TOTAL_LENGTH_def)
  ultimately show ?thesis
    using assms
    by (simp add: fraucheky_get_descriptor_def length_config_desc
        usb_lld_set_data_to_send_def)
qed

theorem get_descriptor_config_witness:
  "CONFIG_DESCRIPTOR sample_lld \<noteq> DEVICE_DESCRIPTOR sample_lld \<and>
   fraucheky_get_descriptor sample_lld 0 2 5 0 [] =
     (USB_SUCCESS,
      [Usb_lld_set_data_to_send
         [9, 2, 32, 0, 1, 1, 0, 0x80, 50,
          9, 4, 0, 0, 2, 8, 6, 0x50, 0,
          7, 5, 0x86, 2, 0x40, 0, 0,
          7, 5, 0x06, 2, 0x40, 0, 0] 32])"
proof -
  have a: "CONFIG_DESCRIPTOR sample_lld \<noteq> DEVICE_DESCRIPTOR sample_lld"
    by (simp add: sample_lld_def)
  have f: "DEVICE_RECIPIENT sample_lld = 0" "CONFIG_DESCRIPTOR sample_lld = 2"
    by (simp_all add: sample_lld_def)
  have c: "config_desc sample_lld =
         [9, 2, 32, 0, 1, 1, 0, 0x80, 50,
          9, 4, 0, 0, 2, 8, 6, 0x50, 0,
          7, 5, 0x86, 2, 0x40, 0, 0,
          7, 5, 0x06, 2, 0x40, 0, 0]"
    by (simp add: config_desc_def sample_lld_def USB_INITIAL_FEATURE_def)
  from get_descriptor_config [OF a, of 5 "[]"] a f c show ?thesis
    by simp
qed

text \<open>
  C4: with the device as recipient and language index 0, a DEVICE request is answered with
  Success and the device descriptor, whatever the descriptor index. Provided the included
  vendor, product and version fragment supplies its six bytes, the descriptor is 18 bytes
  long, byte 0 is 18 and byte 1 is the device descriptor type tag.
\<close>

theorem get_descriptor_device:
  assumes "length (vid_pid_ver h) = 6"
  shows "fraucheky_get_descriptor h (DEVICE_RECIPIENT h) (DEVICE_DESCRIPTOR h) desc_index 0 s =
      (USB_SUCCESS, s @ [Usb_lld_set_data_to_send (device_desc h) 18]) \<and>
    length (device_desc h) = 18 \<and>
    device_desc h ! 0 = 18 \<and>
    device_desc h ! 1 = USB_DEVICE_DESCRIPTOR_TYPE h"
proof -
  have "length (device_desc h) = 18"
    using assms by (simp add: device_desc_def)
  moreover have "device_desc h ! 0 = 18" "device_desc h ! 1 = USB_DEVICE_DESCRIPTOR_TYPE h"
    by (simp_all add: device_desc_def)
  ultimately show ?thesis
    by (simp add: fraucheky_get_descriptor_def usb_lld_set_data_to_send_def)
qed

theorem get_descriptor_device_witness:
  "length (vid_pid_ver sample_lld) = 6 \<and>
   fraucheky_get_descriptor sample_lld 0 1 9 0 [] =
     (USB_SUCCESS,
      [Usb_lld_set_data_to_send
         [18, 1, 0x10, 0x01, 0, 0, 0, 0x40, 0x4b, 0x23, 0x04, 0x00, 0x00, 0x02, 1, 2, 3, 1] 18])"
proof -
  have a: "length (vid_pid_ver sample_lld) = 6"
    by (simp add: sample_lld_def)
  have f: "DEVICE_RECIPIENT sample_lld = 0" "DEVICE_DESCRIPTOR sample_lld = 1"
    by (simp_all add: sample_lld_def)
  have c: "device_desc sample_lld =
         [18, 1, 0x10, 0x01, 0, 0, 0, 0x40, 0x4b, 0x23, 0x04, 0x00, 0x00, 0x02, 1, 2, 3, 1]"
    by (simp add: device_desc_def sample_lld_def)
  from get_descriptor_device [OF a, of 9 "[]"] a f c show ?thesis
    by simp
qed

text \<open>
  C5: whatever the descriptor type and index, a request whose recipient is not the device,
  or whose language index is not 0, is answered with Unsupported.
\<close>

theorem get_descriptor_wrong_recipient_or_language:
  assumes "rcp \<noteq> DEVICE_RECIPIENT h \<or> index \<noteq> 0"
  shows "fst (fraucheky_get_descriptor h rcp desc_type desc_index index s) = USB_UNSUPPORT"
  using assms
  by (auto simp add: fraucheky_get_descriptor_def)

theorem get_descriptor_wrong_recipient_or_language_witness:
  "(1 :: uint8_t) \<noteq> DEVICE_RECIPIENT sample_lld \<and>
   fst (fraucheky_get_descriptor sample_lld 1 1 0 0 []) = USB_UNSUPPORT \<and>
   (0x0409 :: uint16_t) \<noteq> 0 \<and>
   fst (fraucheky_get_descriptor sample_lld 0 3 1 0x0409 []) = USB_UNSUPPORT"
proof -
  have a: "(1 :: uint8_t) \<noteq> DEVICE_RECIPIENT sample_lld"
    by (simp add: sample_lld_def)
  have b: "(0x0409 :: uint16_t) \<noteq> 0"
    by simp
  from get_descriptor_wrong_recipient_or_language
    [where rcp = 1 and h = sample_lld and index = 0 and desc_type = 1 and desc_index = 0
       and s = "[]"] a
  have c: "fst (fraucheky_get_descriptor sample_lld 1 1 0 0 []) = USB_UNSUPPORT"
    by simp
  from get_descriptor_wrong_recipient_or_language
    [where rcp = 0 and h = sample_lld and index = "0x0409" and desc_type = 3 and desc_index = 1
       and s = "[]"] b
  have d: "fst (fraucheky_get_descriptor sample_lld 0 3 1 0x0409 []) = USB_UNSUPPORT"
    by simp
  from a b c d show ?thesis
    by simp
qed

text \<open>
  C6: the control-request dispatcher answers Success for exactly two combinations, a request
  in the GET direction with code 0xFE and a request in the other direction with code 0xFF;
  every other pair of direction and code is answered with Unsupported. In the second
  combination nothing is sent: the link layer receives no call.
\<close>

theorem setup_status:
  "fst (fraucheky_setup h req req_no val len s) =
     (if (USB_SETUP_GET h req \<and> req_no = 0xFE) \<or> (\<not> USB_SETUP_GET h req \<and> req_no = 0xFF)
      then USB_SUCCESS else USB_UNSUPPORT) \<and>
   (\<not> USB_SETUP_GET h req \<and> req_no = 0xFF \<longrightarrow>
      fraucheky_setup h req req_no val len s = (USB_SUCCESS, s))"
  by (simp add: fraucheky_setup_def MSC_GET_MAX_LUN_COMMAND_def
      MSC_MASS_STORAGE_RESET_COMMAND_def)

theorem setup_status_witness:
  "\<not> USB_SETUP_GET sample_lld 0x21 \<and>
   fraucheky_setup sample_lld 0x21 0xFF 3 5 [Usb_lld_stall_tx 6] =
     (USB_SUCCESS, [Usb_lld_stall_tx 6]) \<and>
   fst (fraucheky_setup sample_lld 0x21 0xFE 3 5 []) = USB_UNSUPPORT \<and>
   USB_SETUP_GET sample_lld 0xA1 \<and>
   fst (fraucheky_setup sample_lld 0xA1 0xFE 3 5 []) = USB_SUCCESS \<and>
   fst (fraucheky_setup sample_lld 0xA1 0xFF 3 5 []) = USB_UNSUPPORT"
proof -
  have a: "\<not> USB_SETUP_GET sample_lld 0x21" and b: "USB_SETUP_GET sample_lld 0xA1"
    by (simp_all add: sample_lld_def)
  from setup_status [of sample_lld "0x21" "0xFF" 3 5 "[Usb_lld_stall_tx 6]"] a
  have c: "fraucheky_setup sample_lld 0x21 0xFF 3 5 [Usb_lld_stall_tx 6] =
     (USB_SUCCESS, [Usb_lld_stall_tx 6])"
    by simp
  from setup_status [of sample_lld "0x21" "0xFE" 3 5 "[]"] a
  have d: "fst (fraucheky_setup sample_lld 0x21 0xFE 3 5 []) = USB_UNSUPPORT"
    by simp
  from setup_status [of sample_lld "0xA1" "0xFE" 3 5 "[]"] b
  have e: "fst (fraucheky_setup sample_lld 0xA1 0xFE 3 5 []) = USB_SUCCESS"
    by simp
  from setup_status [of sample_lld "0xA1" "0xFF" 3 5 "[]"] b
  have f: "fst (fraucheky_setup sample_lld 0xA1 0xFF 3 5 []) = USB_UNSUPPORT"
    by simp
  from a b c d e f show ?thesis
    by simp
qed

text \<open>
  C7: with \<open>stop\<close> false (zero) the endpoint configurator issues exactly one call,
  configure-endpoint for endpoint 6 as a bulk endpoint with receive buffer 0x1c0, transmit
  buffer 0x180 and a 64-byte packet size; with \<open>stop\<close> true (non-zero) it issues exactly
  two calls, stall-transmit and then stall-receive on endpoint 6. The two effects never
  occur in the same call.
\<close>

theorem setup_endpoints_for_interface_calls:
  "(stop = 0 \<longrightarrow>
      fraucheky_setup_endpoints_for_interface h stop s =
        s @ [Usb_lld_setup_endpoint (ENDP6 h) (EP_BULK h) 0 0x1c0 0x180 64]) \<and>
   (stop \<noteq> 0 \<longrightarrow>
      fraucheky_setup_endpoints_for_interface h stop s =
        s @ [Usb_lld_stall_tx (ENDP6 h), Usb_lld_stall_rx (ENDP6 h)])"
  by (simp add: fraucheky_setup_endpoints_for_interface_def usb_lld_setup_endpoint_def
      usb_lld_stall_tx_def usb_lld_stall_rx_def ENDP6_RXADDR_def ENDP6_TXADDR_def)

theorem setup_endpoints_for_interface_calls_witness:
  "fraucheky_setup_endpoints_for_interface sample_lld 0 [] =
     [Usb_lld_setup_endpoint 6 0 0 0x1c0 0x180 64] \<and>
   (1 :: int) \<noteq> 0 \<and>
   fraucheky_setup_endpoints_for_interface sample_lld 1 [] =
     [Usb_lld_stall_tx 6, Usb_lld_stall_rx 6]"
proof -
  have f: "ENDP6 sample_lld = 6" "EP_BULK sample_lld = 0"
    by (simp_all add: sample_lld_def)
  from setup_endpoints_for_interface_calls [of 0 sample_lld "[]"] f
  have a: "fraucheky_setup_endpoints_for_interface sample_lld 0 [] =
     [Usb_lld_setup_endpoint 6 0 0 0x1c0 0x180 64]"
    by simp
  from setup_endpoints_for_interface_calls [of 1 sample_lld "[]"] f
  have b: "fraucheky_setup_endpoints_for_interface sample_lld 1 [] =
     [Usb_lld_stall_tx 6, Usb_lld_stall_rx 6]"
    by simp
  from a b show ?thesis
    by simp
qed

text \<open>
  C8: two calls of the control-request dispatcher that agree on the direction of the request
  and on the request code give the same status and leave the link layer with the same
  sequence of calls, buffer and length included, whatever their value and length arguments
  are.
\<close>

theorem setup_ignores_value_and_length:
  assumes "USB_SETUP_GET h req1 = USB_SETUP_GET h req2"
  shows "fraucheky_setup h req1 req_no val1 len1 s = fraucheky_setup h req2 req_no val2 len2 s"
  using assms
  by (simp add: fraucheky_setup_def)

theorem setup_ignores_value_and_length_witness:
  "USB_SETUP_GET sample_lld 0xA1 = USB_SETUP_GET sample_lld 0x80 \<and>
   fraucheky_setup sample_lld 0xA1 0xFE 0 1 [] = fraucheky_setup sample_lld 0x80 0xFE 0xFFFF 0 [] \<and>
   fraucheky_setup sample_lld 0xA1 0xFE 0 1 [] =
     (USB_SUCCESS, [Usb_lld_set_data_to_send [0, 0, 0, 0] 4])"
proof -
  have a: "USB_SETUP_GET sample_lld 0xA1 = USB_SETUP_GET sample_lld 0x80"
    by (simp add: sample_lld_def)
  have b: "fraucheky_setup sample_lld 0xA1 0xFE 0 1 [] =
     (USB_SUCCESS, [Usb_lld_set_data_to_send [0, 0, 0, 0] 4])"
    by (simp add: fraucheky_setup_def sample_lld_def MSC_GET_MAX_LUN_COMMAND_def
        usb_lld_set_data_to_send_def lun_table_def)
  from setup_ignores_value_and_length [OF a, of "0xFE" 0 1 "[]" "0xFFFF" 0] a b
  show ?thesis
    by simp
qed

text \<open>
  C9: each of the three entry points has an outcome and a sequence of link-layer calls that
  are fixed by its arguments alone and do not depend on what the link layer received
  before. So a second call with the same arguments, made right after the first one, returns
  the same outcome and issues the same calls with the same buffers and lengths once more.
\<close>

theorem entry_points_repeatable:
  "(\<exists>cs. \<forall>s.
      fraucheky_setup_endpoints_for_interface h stop s = s @ cs \<and>
      fraucheky_setup_endpoints_for_interface h stop
        (fraucheky_setup_endpoints_for_interface h stop s) = s @ cs @ cs) \<and>
   (\<exists>r cs. \<forall>s.
      fraucheky_setup h req req_no val len s = (r, s @ cs) \<and>
      fraucheky_setup h req req_no val len (snd (fraucheky_setup h req req_no val len s)) =
        (r, s @ cs @ cs)) \<and>
   (\<exists>r cs. \<forall>s.
      fraucheky_get_descriptor h rcp desc_type desc_index index s = (r, s @ cs) \<and>
      fraucheky_get_descriptor h rcp desc_type desc_index index
        (snd (fraucheky_get_descriptor h rcp desc_type desc_index index s)) = (r, s @ cs @ cs))"
proof (intro conjI)
  show "\<exists>cs. \<forall>s.
      fraucheky_setup_endpoints_for_interface h stop s = s @ cs \<and>
      fraucheky_setup_endpoints_for_interface h stop
        (fraucheky_setup_endpoints_for_interface h stop s) = s @ cs @ cs"
  proof (cases "stop = 0")
    case True
    then have "\<forall>s. fraucheky_setup_endpoints_for_interface h stop s =
        s @ [Usb_lld_setup_endpoint (ENDP6 h) (EP_BULK h) 0 ENDP6_RXADDR ENDP6_TXADDR 64]"
      by (simp add: fraucheky_setup_endpoints_for_interface_def usb_lld_setup_endpoint_def)
    then show ?thesis
      by (intro exI [of _ "[Usb_lld_setup_endpoint (ENDP6 h) (EP_BULK h) 0
            ENDP6_RXADDR ENDP6_TXADDR 64]"]) simp
  next
    case False
    then have "\<forall>s. fraucheky_setup_endpoints_for_interface h stop s =
        s @ [Usb_lld_stall_tx (ENDP6 h), Usb_lld_stall_rx (ENDP6 h)]"
      by (simp add: fraucheky_setup_endpoints_for_interface_def usb_lld_stall_tx_def
          usb_lld_stall_rx_def)
    then show ?thesis
      by (intro exI [of _ "[Usb_lld_stall_tx (ENDP6 h), Usb_lld_stall_rx (ENDP6 h)]"]) simp
  qed
next
  define r where "r = fst (fraucheky_setup h req req_no val len [])"
  define cs where "cs = snd (fraucheky_setup h req req_no val len [])"
  have eq: "fraucheky_setup h req req_no val len s = (r, s @ cs)" for s
    unfolding r_def cs_def
    by (simp add: fraucheky_setup_def usb_lld_set_data_to_send_def)
  show "\<exists>r cs. \<forall>s.
      fraucheky_setup h req req_no val len s = (r, s @ cs) \<and>
      fraucheky_setup h req req_no val len (snd (fraucheky_setup h req req_no val len s)) =
        (r, s @ cs @ cs)"
    by (intro exI [of _ r] exI [of _ cs]) (simp add: eq)
next
  define r where "r = fst (fraucheky_get_descriptor h rcp desc_type desc_index index [])"
  define cs where "cs = snd (fraucheky_get_descriptor h rcp desc_type desc_index index [])"
  have eq: "fraucheky_get_descriptor h rcp desc_type desc_index index s = (r, s @ cs)" for s
    unfolding r_def cs_def
    by (simp add: fraucheky_get_descriptor_def usb_lld_set_data_to_send_def)
  show "\<exists>r cs. \<forall>s.
      fraucheky_get_descriptor h rcp desc_type desc_index index s = (r, s @ cs) \<and>
      fraucheky_get_descriptor h rcp desc_type desc_index index
        (snd (fraucheky_get_descriptor h rcp desc_type desc_index index s)) = (r, s @ cs @ cs)"
    by (intro exI [of _ r] exI [of _ cs]) (simp add: eq)
qed

theorem entry_points_repeatable_witness:
  "fraucheky_setup sample_lld 0xA1 0xFE 0 0 [] =
     (USB_SUCCESS, [Usb_lld_set_data_to_send [0, 0, 0, 0] 4]) \<and>
   fraucheky_setup sample_lld 0xA1 0xFE 0 0 (snd (fraucheky_setup sample_lld 0xA1 0xFE 0 0 [])) =
     (USB_SUCCESS,
      [Usb_lld_set_data_to_send [0, 0, 0, 0] 4, Usb_lld_set_data_to_send [0, 0, 0, 0] 4])"
proof -
  from entry_points_repeatable [of sample_lld 0 "0xA1" "0xFE" 0 0 0 0 0 0]
  obtain r cs where rep: "\<forall>s.
      fraucheky_setup sample_lld 0xA1 0xFE 0 0 s = (r, s @ cs) \<and>
      fraucheky_setup sample_lld 0xA1 0xFE 0 0
        (snd (fraucheky_setup sample_lld 0xA1 0xFE 0 0 s)) = (r, s @ cs @ cs)"
    by blast
  have first: "fraucheky_setup sample_lld 0xA1 0xFE 0 0 [] =
     (USB_SUCCESS, [Usb_lld_set_data_to_send [0, 0, 0, 0] 4])"
    by (simp add: fraucheky_setup_def sample_lld_def MSC_GET_MAX_LUN_COMMAND_def
        usb_lld_set_data_to_send_def lun_table_def)
  from rep have "fraucheky_setup sample_lld 0xA1 0xFE 0 0 [] = (r, [] @ cs)"
    by blast
  with first have rc: "r = USB_SUCCESS" "cs = [Usb_lld_set_data_to_send [0, 0, 0, 0] 4]"
    by simp_all
  from rep have "fraucheky_setup sample_lld 0xA1 0xFE 0 0
        (snd (fraucheky_setup sample_lld 0xA1 0xFE 0 0 [])) = (r, [] @ cs @ cs)"
    by blast
  with rc first show ?thesis
    by simp
qed

text \<open>
  C10: a descriptor request that is answered with Unsupported leaves the link layer as it
  was, with no call of the outbound-data primitive. This covers the request addressed to
  the device with language index 0 whose descriptor type is none of DEVICE, CONFIG and
  STRING: it is answered with Unsupported and nothing is sent.
\<close>

theorem get_descriptor_unsupported_sends_nothing:
  "(fst (fraucheky_get_descriptor h rcp desc_type desc_index index s) = USB_UNSUPPORT \<longrightarrow>
      snd (fraucheky_get_descriptor h rcp desc_type desc_index index s) = s) \<and>
   (desc_type \<noteq> DEVICE_DESCRIPTOR h \<and> desc_type \<noteq> CONFIG_DESCRIPTOR h \<and>
    desc_type \<noteq> STRING_DESCRIPTOR h \<longrightarrow>
      fraucheky_get_descriptor h (DEVICE_RECIPIENT h) desc_type desc_index 0 s =
        (USB_UNSUPPORT, s))"
  by (simp add: fraucheky_get_descriptor_def)

theorem get_descriptor_unsupported_sends_nothing_witness:
  "fst (fraucheky_get_descriptor sample_lld 0 3 4 0 [Usb_lld_stall_rx 6]) = USB_UNSUPPORT \<and>
   snd (fraucheky_get_descriptor sample_lld 0 3 4 0 [Usb_lld_stall_rx 6]) = [Usb_lld_stall_rx 6] \<and>
   (0x22 :: uint8_t) \<noteq> DEVICE_DESCRIPTOR sample_lld \<and>
   (0x22 :: uint8_t) \<noteq> CONFIG_DESCRIPTOR sample_lld \<and>
   (0x22 :: uint8_t) \<noteq> STRING_DESCRIPTOR sample_lld \<and>
   fraucheky_get_descriptor sample_lld 0 0x22 0 0 [Usb_lld_stall_rx 6] =
     (USB_UNSUPPORT, [Usb_lld_stall_rx 6])"
proof -
  have a: "fst (fraucheky_get_descriptor sample_lld 0 3 4 0 [Usb_lld_stall_rx 6]) = USB_UNSUPPORT"
    by (simp add: fraucheky_get_descriptor_def sample_lld_def length_string_descriptors)
  have b: "(0x22 :: uint8_t) \<noteq> DEVICE_DESCRIPTOR sample_lld"
    "(0x22 :: uint8_t) \<noteq> CONFIG_DESCRIPTOR sample_lld"
    "(0x22 :: uint8_t) \<noteq> STRING_DESCRIPTOR sample_lld"
    by (simp_all add: sample_lld_def)
  have f: "DEVICE_RECIPIENT sample_lld = 0"
    by (simp add: sample_lld_def)
  from get_descriptor_unsupported_sends_nothing
    [where h = sample_lld and rcp = 0 and desc_type = 3 and desc_index = 4 and index = 0
       and s = "[Usb_lld_stall_rx 6]"] a
  have c: "snd (fraucheky_get_descriptor sample_lld 0 3 4 0 [Usb_lld_stall_rx 6]) =
      [Usb_lld_stall_rx 6]"
    by simp
  from get_descriptor_unsupported_sends_nothing
    [where h = sample_lld and rcp = 0 and desc_type = "0x22" and desc_index = 0 and index = 0
       and s = "[Usb_lld_stall_rx 6]"] b f
  have d: "fraucheky_get_descriptor sample_lld 0 0x22 0 0 [Usb_lld_stall_rx 6] =
     (USB_UNSUPPORT, [Usb_lld_stall_rx 6])"
    by simp
  from a b c d show ?thesis
    by simp
qed

end
